theory Spec2Isabelle
  imports Complex_Main "HOL-Library.AList"
begin

section \<open>The signal engine as seen from the two oscillators\<close>

text \<open>
  \<^verbatim>\<open>brkpntosc.py\<close> and \<^verbatim>\<open>triosc.py\<close> build their waveforms out of signal objects of the
  audio engine: every constructor call and every arithmetic or comparison operator applied to
  a signal creates a new object, and the oscillator keeps references to some of them in its
  attributes. Objects live in a store and are named by their address, so that two attributes
  that hold the same object are seen to do so, and a setter that changes an object in place is
  seen through every reference to it.
\<close>

type_synonym ref = nat

text \<open>An argument documented as "float or PyoObject".\<close>

datatype pyval = Num real | Obj ref

datatype binop = Add | Sub | Mul | Div

datatype cmpop = Lt | Ge

text \<open>
  The kinds of signal object the two files create, each with the arguments the source gives it:
  \<^verbatim>\<open>Phasor(freq, phase)\<close>, \<^verbatim>\<open>Sig(value, mul, add)\<close>, the result of an arithmetic operator
  \<^verbatim>\<open>a + b\<close>, \<^verbatim>\<open>a - b\<close>, \<^verbatim>\<open>a * b\<close>, \<^verbatim>\<open>a / b\<close>, the result of a comparison \<^verbatim>\<open>a < b\<close>,
  \<^verbatim>\<open>a >= b\<close>, and \<^verbatim>\<open>Min(input, comp, mul, add)\<close>.
\<close>

datatype node =
    PhasorObj pyval pyval
  | SigObj pyval pyval pyval
  | ArithObj binop pyval pyval
  | CompareObj cmpop pyval pyval
  | MinObj pyval pyval pyval pyval

text \<open>
  An object of the store: what it computes, whether the engine currently runs it (set by
  \<^verbatim>\<open>play\<close> and \<^verbatim>\<open>out\<close>, cleared by \<^verbatim>\<open>stop\<close>), and the output channel \<^verbatim>\<open>out\<close> routed it to.
\<close>

record obj =
  node :: node
  active :: bool
  chnl :: "int option"

record heap =
  objs :: "ref \<rightharpoonup> obj"
  nxt :: ref

definition empty_heap :: heap where
  "empty_heap = \<lparr>objs = Map.empty, nxt = 0\<rparr>"

text \<open>
  In a well-formed store every address in use is below the next fresh one, so that a new
  object never takes the place of an old one.
\<close>

definition heap_ok :: "heap \<Rightarrow> bool" where
  "heap_ok h = (\<forall>r. r \<in> dom (objs h) \<longrightarrow> r < nxt h)"

text \<open>
  Creating a signal object: it gets a fresh address. The engine starts an object when it is
  created.
\<close>

definition alloc :: "node \<Rightarrow> heap \<Rightarrow> pyval \<times> heap" where
  "alloc nd h =
     (Obj (nxt h),
      h\<lparr>objs := (objs h)(nxt h \<mapsto> \<lparr>node = nd, active = True, chnl = None\<rparr>),
        nxt := Suc (nxt h)\<rparr>)"

definition new_Phasor :: "pyval \<Rightarrow> pyval \<Rightarrow> heap \<Rightarrow> pyval \<times> heap" where
  "new_Phasor freq phase h = alloc (PhasorObj freq phase) h"

definition new_Sig :: "pyval \<Rightarrow> pyval \<Rightarrow> pyval \<Rightarrow> heap \<Rightarrow> pyval \<times> heap" where
  "new_Sig v mul add h = alloc (SigObj v mul add) h"

definition new_Min :: "pyval \<Rightarrow> pyval \<Rightarrow> pyval \<Rightarrow> pyval \<Rightarrow> heap \<Rightarrow> pyval \<times> heap" where
  "new_Min a b mul add h = alloc (MinObj a b mul add) h"

definition arith :: "binop \<Rightarrow> pyval \<Rightarrow> pyval \<Rightarrow> heap \<Rightarrow> pyval \<times> heap" where
  "arith bop a b h = alloc (ArithObj bop a b) h"

definition compare :: "cmpop \<Rightarrow> pyval \<Rightarrow> pyval \<Rightarrow> heap \<Rightarrow> pyval \<times> heap" where
  "compare c a b h = alloc (CompareObj c a b) h"

subsection \<open>The value of a signal at one sample\<close>

text \<open>
  A sample is a number, or the result of a division by zero: a value that is not a number of
  the waveform (infinite or undefined), and not an error either.
\<close>

datatype sample = Fin real | Undefined

text \<open>
  Modelled from the spec: the engine's arithmetic and comparison combinators, which are not
  part of this repository. Section 6 lists them (add, subtract, multiply, divide, less-than
  and greater-or-equal producing a 0/1 mask, minimum of two signals); section 7 says that a
  division by zero gives an undefined or infinite sample and raises nothing. Samples are
  real numbers here, not floating-point numbers.
\<close>

fun arith_sample :: "binop \<Rightarrow> sample \<Rightarrow> sample \<Rightarrow> sample" where
  "arith_sample Add (Fin x) (Fin y) = Fin (x + y)"
| "arith_sample Sub (Fin x) (Fin y) = Fin (x - y)"
| "arith_sample Mul (Fin x) (Fin y) = Fin (x * y)"
| "arith_sample Div (Fin x) (Fin y) = (if y = 0 then Undefined else Fin (x / y))"
| "arith_sample _ _ _ = Undefined"

fun compare_sample :: "cmpop \<Rightarrow> sample \<Rightarrow> sample \<Rightarrow> sample" where
  "compare_sample Lt (Fin x) (Fin y) = Fin (if x < y then 1 else 0)"
| "compare_sample Ge (Fin x) (Fin y) = Fin (if x \<ge> y then 1 else 0)"
| "compare_sample _ _ _ = Undefined"

fun min_sample :: "sample \<Rightarrow> sample \<Rightarrow> sample" where
  "min_sample (Fin x) (Fin y) = Fin (min x y)"
| "min_sample _ _ = Undefined"

text \<open>The post-processing every \<^verbatim>\<open>mul\<close>/\<^verbatim>\<open>add\<close> pair applies: \<open>x * mul + add\<close>.\<close>

definition scale :: "sample \<Rightarrow> sample \<Rightarrow> sample \<Rightarrow> sample" where
  "scale x m a = arith_sample Add (arith_sample Mul x m) a"

fun opt2 :: "('a \<Rightarrow> 'b \<Rightarrow> 'c) \<Rightarrow> 'a option \<Rightarrow> 'b option \<Rightarrow> 'c option" where
  "opt2 f (Some x) (Some y) = Some (f x y)"
| "opt2 f _ _ = None"

fun opt3 :: "('a \<Rightarrow> 'b \<Rightarrow> 'c \<Rightarrow> 'd) \<Rightarrow> 'a option \<Rightarrow> 'b option \<Rightarrow> 'c option \<Rightarrow> 'd option" where
  "opt3 f (Some x) (Some y) (Some z) = Some (f x y z)"
| "opt3 f _ _ _ = None"

text \<open>
  The current sample of an argument: a number is itself, an object is what its node computes
  from the current samples of its own arguments. A phasor is the time base: its current
  output is given from outside (\<open>env\<close>), as the ramp position the engine has reached. The
  recursion follows references through the store, so it carries fuel; \<open>None\<close> means the fuel
  ran out or a reference is dangling.
\<close>

fun sample_of :: "nat \<Rightarrow> heap \<Rightarrow> (ref \<Rightarrow> real) \<Rightarrow> pyval \<Rightarrow> sample option" where
  "sample_of n h env (Num x) = Some (Fin x)"
| "sample_of 0 h env (Obj r) = None"
| "sample_of (Suc n) h env (Obj r) =
     (case objs h r of
        None \<Rightarrow> None
      | Some ob \<Rightarrow>
          (case node ob of
             PhasorObj freq phase \<Rightarrow> Some (Fin (env r))
           | SigObj v mul add \<Rightarrow>
               opt3 scale (sample_of n h env v) (sample_of n h env mul) (sample_of n h env add)
           | ArithObj bop a b \<Rightarrow>
               opt2 (arith_sample bop) (sample_of n h env a) (sample_of n h env b)
           | CompareObj c a b \<Rightarrow>
               opt2 (compare_sample c) (sample_of n h env a) (sample_of n h env b)
           | MinObj a b mul add \<Rightarrow>
               opt3 scale (opt2 min_sample (sample_of n h env a) (sample_of n h env b))
                 (sample_of n h env mul) (sample_of n h env add)))"

text \<open>
  The fuel of an evaluation is the number of objects ever created: a chain of references
  through distinct objects is never longer.
\<close>

definition cur :: "heap \<Rightarrow> (ref \<Rightarrow> real) \<Rightarrow> pyval \<Rightarrow> sample option" where
  "cur h env v = sample_of (nxt h) h env v"

section \<open>Instances\<close>

text \<open>
  An instance is its \<^verbatim>\<open>__dict__\<close>: attribute names with their values, in the order of first
  assignment. An attribute holds a float or a signal object, the list of base objects
  (\<^verbatim>\<open>_base_objs\<close>), or \<^verbatim>\<open>None\<close>.
\<close>

datatype attr = Param pyval | BaseObjs "ref list" | NoneVal

type_synonym pyinstance = "(string \<times> attr) list"

definition setattr :: "pyinstance \<Rightarrow> string \<Rightarrow> attr \<Rightarrow> pyinstance" where
  "setattr self key v = AList.update key v self"

definition getattr :: "pyinstance \<Rightarrow> string \<Rightarrow> attr option" where
  "getattr self key = map_of self key"

text \<open>\<^verbatim>\<open>obj.getBaseObjects()\<close>: the audio streams of a signal object, here the object itself.\<close>

fun getBaseObjects :: "pyval \<Rightarrow> attr" where
  "getBaseObjects (Obj r) = BaseObjs [r]"
| "getBaseObjects (Num x) = NoneVal"

text \<open>
  Modelled from the spec: the base class \<^verbatim>\<open>PyoObject\<close> of the engine, which is not part of
  this repository. Its constructor keeps the post-processing arguments and has no audio
  output yet; its other bookkeeping attributes never hold a signal object and are left out.
\<close>

definition PyoObject_init :: "pyval \<Rightarrow> pyval \<Rightarrow> pyinstance" where
  "PyoObject_init mul add =
     [(''_mul'', Param mul), (''_add'', Param add), (''_base_objs'', NoneVal)]"

section \<open>The breakpoint oscillator\<close>

text \<open>
  \<^verbatim>\<open>BrkPntOsc.__init__\<close>, statement by statement. Each operator of an expression creates its
  own object, in Python's order of evaluation; \<^verbatim>\<open>Sig(x)\<close> has \<^verbatim>\<open>mul=1\<close> and \<^verbatim>\<open>add=0\<close>.
\<close>

definition BrkPntOsc_init ::
  "pyval \<Rightarrow> pyval \<Rightarrow> pyval \<Rightarrow> pyval \<Rightarrow> pyval \<Rightarrow> heap \<Rightarrow> pyinstance \<times> heap" where
  "BrkPntOsc_init freq phase breakpoint mul add h0 =
     (let self = PyoObject_init mul add;
          self = setattr self ''_freq'' (Param freq);
          self = setattr self ''_phase'' (Param phase);
          (brk, h) = new_Sig breakpoint (Num 1) (Num 0) h0;
          self = setattr self ''_breakpoint'' (Param brk);
          (invbrk, h) = arith Sub (Num 1) brk h;
          self = setattr self ''_invbrk'' (Param invbrk);
          (phasor, h) = new_Phasor freq phase h;
          self = setattr self ''_phasor'' (Param phasor);
          (t1, h) = arith Div phasor brk h;
          (t2, h) = compare Lt phasor brk h;
          (rising, h) = arith Mul t1 t2 h;
          self = setattr self ''_rising'' (Param rising);
          (t3, h) = arith Sub phasor brk h;
          (t4, h) = arith Div t3 invbrk h;
          (t5, h) = arith Mul t4 (Num (-1)) h;
          (t6, h) = arith Add t5 (Num 1) h;
          (t7, h) = compare Ge phasor brk h;
          (falling, h) = arith Mul t6 t7 h;
          self = setattr self ''_falling'' (Param falling);
          (t8, h) = arith Add rising falling h;
          (osc, h) = new_Sig t8 (Num 2) (Num (-1)) h;
          self = setattr self ''_osc'' (Param osc);
          (output, h) = new_Sig osc mul add h;
          self = setattr self ''_output'' (Param output);
          self = setattr self ''_base_objs'' (getBaseObjects output)
      in (self, h))"

text \<open>
  \<^verbatim>\<open>Sig.value\<close>: what a \<^verbatim>\<open>Sig\<close> object currently holds (\<open>None\<close> for anything else).
\<close>

definition Sig_value :: "heap \<Rightarrow> pyval \<Rightarrow> pyval option" where
  "Sig_value h v =
     (case v of
        Num x \<Rightarrow> None
      | Obj r \<Rightarrow>
          (case objs h r of
             None \<Rightarrow> None
           | Some ob \<Rightarrow> (case node ob of SigObj x mul add \<Rightarrow> Some x | _ \<Rightarrow> None)))"

text \<open>The current sample of the signal an attribute holds.\<close>

definition attr_cur :: "heap \<Rightarrow> (ref \<Rightarrow> real) \<Rightarrow> pyinstance \<Rightarrow> string \<Rightarrow> sample option" where
  "attr_cur h env self key =
     (case getattr self key of Some (Param v) \<Rightarrow> cur h env v | _ \<Rightarrow> None)"

text \<open>
  The combined raw waveform \<^verbatim>\<open>self._rising + self._falling\<close> is not kept in an attribute
  of its own: it is the value held by the \<^verbatim>\<open>Sig\<close> in \<^verbatim>\<open>self._osc\<close>.
\<close>

definition raw_cur :: "heap \<Rightarrow> (ref \<Rightarrow> real) \<Rightarrow> pyinstance \<Rightarrow> sample option" where
  "raw_cur h env self =
     (case getattr self ''_osc'' of
        Some (Param v) \<Rightarrow> (case Sig_value h v of Some x \<Rightarrow> cur h env x | None \<Rightarrow> None)
      | _ \<Rightarrow> None)"

subsection \<open>Setters\<close>

datatype error = AttributeError

text \<open>
  Modelled from the spec: the in-place setters of the engine's objects (section 6: the phase
  ramp generator "exposes in-place setters for frequency and phase", the \<^verbatim>\<open>Sig\<close> wrapper
  "exposes a settable current value"). Calling one on an object of another kind, or on
  something that is no object, is Python's \<^verbatim>\<open>AttributeError\<close>.
\<close>

definition Phasor_setFreq :: "pyval \<Rightarrow> pyval \<Rightarrow> heap \<Rightarrow> error + heap" where
  "Phasor_setFreq v x h =
     (case v of
        Num y \<Rightarrow> Inl AttributeError
      | Obj r \<Rightarrow>
          (case objs h r of
             None \<Rightarrow> Inl AttributeError
           | Some ob \<Rightarrow>
               (case node ob of
                  PhasorObj freq phase \<Rightarrow>
                    Inr (h\<lparr>objs := (objs h)(r \<mapsto> ob\<lparr>node := PhasorObj x phase\<rparr>)\<rparr>)
                | _ \<Rightarrow> Inl AttributeError)))"

definition Phasor_setPhase :: "pyval \<Rightarrow> pyval \<Rightarrow> heap \<Rightarrow> error + heap" where
  "Phasor_setPhase v x h =
     (case v of
        Num y \<Rightarrow> Inl AttributeError
      | Obj r \<Rightarrow>
          (case objs h r of
             None \<Rightarrow> Inl AttributeError
           | Some ob \<Rightarrow>
               (case node ob of
                  PhasorObj freq phase \<Rightarrow>
                    Inr (h\<lparr>objs := (objs h)(r \<mapsto> ob\<lparr>node := PhasorObj freq x\<rparr>)\<rparr>)
                | _ \<Rightarrow> Inl AttributeError)))"

definition Sig_setValue :: "pyval \<Rightarrow> pyval \<Rightarrow> heap \<Rightarrow> error + heap" where
  "Sig_setValue v x h =
     (case v of
        Num y \<Rightarrow> Inl AttributeError
      | Obj r \<Rightarrow>
          (case objs h r of
             None \<Rightarrow> Inl AttributeError
           | Some ob \<Rightarrow>
               (case node ob of
                  SigObj value mul add \<Rightarrow>
                    Inr (h\<lparr>objs := (objs h)(r \<mapsto> ob\<lparr>node := SigObj x mul add\<rparr>)\<rparr>)
                | _ \<Rightarrow> Inl AttributeError)))"

text \<open>Reading \<^verbatim>\<open>self.key\<close> where a float or a signal object is expected.\<close>

definition param :: "pyinstance \<Rightarrow> string \<Rightarrow> error + pyval" where
  "param self key = (case getattr self key of Some (Param v) \<Rightarrow> Inr v | _ \<Rightarrow> Inl AttributeError)"

text \<open>
  A method that changes the instance and the store returns both, or the error it raised.
  \<^verbatim>\<open>BrkPntOsc.setFreq\<close>, \<^verbatim>\<open>setPhase\<close> and \<^verbatim>\<open>setBrkPnt\<close>:
\<close>

definition BrkPntOsc_setFreq :: "pyinstance \<Rightarrow> pyval \<Rightarrow> heap \<Rightarrow> error + pyinstance \<times> heap" where
  "BrkPntOsc_setFreq self freq h =
     (let self = setattr self ''_freq'' (Param freq) in
      case param self ''_phasor'' of
        Inl e \<Rightarrow> Inl e
      | Inr phasor \<Rightarrow>
          (case param self ''_freq'' of
             Inl e \<Rightarrow> Inl e
           | Inr f \<Rightarrow>
               (case Phasor_setFreq phasor f h of Inl e \<Rightarrow> Inl e | Inr h' \<Rightarrow> Inr (self, h'))))"

definition BrkPntOsc_setPhase :: "pyinstance \<Rightarrow> pyval \<Rightarrow> heap \<Rightarrow> error + pyinstance \<times> heap" where
  "BrkPntOsc_setPhase self phase h =
     (let self = setattr self ''_phase'' (Param phase) in
      case param self ''_phasor'' of
        Inl e \<Rightarrow> Inl e
      | Inr phasor \<Rightarrow>
          (case param self ''_phase'' of
             Inl e \<Rightarrow> Inl e
           | Inr ph \<Rightarrow>
               (case Phasor_setPhase phasor ph h of Inl e \<Rightarrow> Inl e | Inr h' \<Rightarrow> Inr (self, h'))))"

definition BrkPntOsc_setBrkPnt :: "pyinstance \<Rightarrow> pyval \<Rightarrow> heap \<Rightarrow> error + pyinstance \<times> heap" where
  "BrkPntOsc_setBrkPnt self brkpnt h =
     (case param self ''_breakpoint'' of
        Inl e \<Rightarrow> Inl e
      | Inr b \<Rightarrow> (case Sig_setValue b brkpnt h of Inl e \<Rightarrow> Inl e | Inr h' \<Rightarrow> Inr (self, h')))"

subsection \<open>Starting and stopping\<close>

text \<open>
  Modelled from the spec: the lifecycle operations of the engine (section 6: "start
  (optionally bounded by duration/delay), stop, and multi-channel output-routing with channel
  index and increment"). On one signal object they set its activation state; the time bounds
  \<^verbatim>\<open>dur\<close> and \<^verbatim>\<open>delay\<close> are passed on and have no effect on the state recorded here.
\<close>

definition obj_play :: "ref \<Rightarrow> real \<Rightarrow> real \<Rightarrow> heap \<Rightarrow> heap" where
  "obj_play r dur delay h =
     (case objs h r of
        None \<Rightarrow> h
      | Some ob \<Rightarrow> h\<lparr>objs := (objs h)(r \<mapsto> ob\<lparr>active := True\<rparr>)\<rparr>)"

definition obj_stop :: "ref \<Rightarrow> heap \<Rightarrow> heap" where
  "obj_stop r h =
     (case objs h r of
        None \<Rightarrow> h
      | Some ob \<Rightarrow> h\<lparr>objs := (objs h)(r \<mapsto> ob\<lparr>active := False\<rparr>)\<rparr>)"

definition obj_out :: "ref \<Rightarrow> int \<Rightarrow> real \<Rightarrow> real \<Rightarrow> heap \<Rightarrow> heap" where
  "obj_out r c dur delay h =
     (case objs h r of
        None \<Rightarrow> h
      | Some ob \<Rightarrow> h\<lparr>objs := (objs h)(r \<mapsto> ob\<lparr>active := True, chnl := Some c\<rparr>)\<rparr>)"

text \<open>
  The activation state of an object, as the engine reports it (\<open>None\<close> when there is no
  such object).
\<close>

definition activation :: "heap \<Rightarrow> ref \<Rightarrow> bool option" where
  "activation h r = map_option active (objs h r)"

text \<open>
  Modelled from the spec: the operations of the base class, which by default reach "only
  the final output object, not its internal dependency chain" (section 4.2): they go through
  \<^verbatim>\<open>self._base_objs\<close>, and \<^verbatim>\<open>out\<close> gives the i-th base object the channel
  \<^verbatim>\<open>chnl + i * inc\<close>.
\<close>

fun play_all :: "ref list \<Rightarrow> real \<Rightarrow> real \<Rightarrow> heap \<Rightarrow> heap" where
  "play_all [] dur delay h = h"
| "play_all (r # rs) dur delay h = play_all rs dur delay (obj_play r dur delay h)"

fun stop_all :: "ref list \<Rightarrow> heap \<Rightarrow> heap" where
  "stop_all [] h = h"
| "stop_all (r # rs) h = stop_all rs (obj_stop r h)"

fun out_all :: "ref list \<Rightarrow> int \<Rightarrow> int \<Rightarrow> real \<Rightarrow> real \<Rightarrow> heap \<Rightarrow> heap" where
  "out_all [] c inc dur delay h = h"
| "out_all (r # rs) c inc dur delay h = out_all rs (c + inc) inc dur delay (obj_out r c dur delay h)"

definition PyoObject_play :: "pyinstance \<Rightarrow> real \<Rightarrow> real \<Rightarrow> heap \<Rightarrow> heap" where
  "PyoObject_play self dur delay h =
     (case getattr self ''_base_objs'' of
        Some (BaseObjs rs) \<Rightarrow> play_all rs dur delay h
      | _ \<Rightarrow> h)"

definition PyoObject_stop :: "pyinstance \<Rightarrow> heap \<Rightarrow> heap" where
  "PyoObject_stop self h =
     (case getattr self ''_base_objs'' of
        Some (BaseObjs rs) \<Rightarrow> stop_all rs h
      | _ \<Rightarrow> h)"

definition PyoObject_out :: "pyinstance \<Rightarrow> int \<Rightarrow> int \<Rightarrow> real \<Rightarrow> real \<Rightarrow> heap \<Rightarrow> heap" where
  "PyoObject_out self c inc dur delay h =
     (case getattr self ''_base_objs'' of
        Some (BaseObjs rs) \<Rightarrow> out_all rs c inc dur delay h
      | _ \<Rightarrow> h)"

text \<open>
  \<^verbatim>\<open>BrkPntOsc\<close> defines none of \<^verbatim>\<open>play\<close>, \<^verbatim>\<open>stop\<close> and \<^verbatim>\<open>out\<close>: a call on an instance is the
  inherited operation.
\<close>

definition BrkPntOsc_play :: "pyinstance \<Rightarrow> real \<Rightarrow> real \<Rightarrow> heap \<Rightarrow> heap" where
  "BrkPntOsc_play self dur delay h = PyoObject_play self dur delay h"

definition BrkPntOsc_stop :: "pyinstance \<Rightarrow> heap \<Rightarrow> heap" where
  "BrkPntOsc_stop self h = PyoObject_stop self h"

definition BrkPntOsc_out :: "pyinstance \<Rightarrow> int \<Rightarrow> int \<Rightarrow> real \<Rightarrow> real \<Rightarrow> heap \<Rightarrow> heap" where
  "BrkPntOsc_out self c inc dur delay h = PyoObject_out self c inc dur delay h"

section \<open>The triangle oscillator\<close>

text \<open>
  \<^verbatim>\<open>TriOsc.__init__\<close>. The product \<^verbatim>\<open>self._phasor * (-1)\<close> is an object of its own, which
  no attribute holds.
\<close>

definition TriOsc_init ::
  "pyval \<Rightarrow> pyval \<Rightarrow> pyval \<Rightarrow> pyval \<Rightarrow> heap \<Rightarrow> pyinstance \<times> heap" where
  "TriOsc_init freq phase mul add h0 =
     (let self = PyoObject_init mul add;
          self = setattr self ''_freq'' (Param freq);
          self = setattr self ''_phase'' (Param phase);
          (phasor, h) = new_Phasor freq phase h0;
          self = setattr self ''_phasor'' (Param phasor);
          (t1, h) = arith Mul phasor (Num (-1)) h;
          (inv_phasor, h) = arith Add t1 (Num 1) h;
          self = setattr self ''_inv_phasor'' (Param inv_phasor);
          (mn, h) = new_Min phasor inv_phasor (Num 4) (Num (-1)) h;
          self = setattr self ''_min'' (Param mn);
          (output, h) = new_Sig mn mul add h;
          self = setattr self ''_output'' (Param output);
          self = setattr self ''_base_objs'' (getBaseObjects output)
      in (self, h))"

text \<open>
  \<^verbatim>\<open>TriOsc.setFreq\<close> and \<^verbatim>\<open>setPhase\<close>: the assignments \<^verbatim>\<open>self._phasor.freq = x\<close> and
  \<^verbatim>\<open>self._phasor.phase = x\<close> go through the phasor's property setters.
\<close>

definition TriOsc_setFreq :: "pyinstance \<Rightarrow> pyval \<Rightarrow> heap \<Rightarrow> error + pyinstance \<times> heap" where
  "TriOsc_setFreq self x h =
     (let self = setattr self ''_freq'' (Param x) in
      case param self ''_phasor'' of
        Inl e \<Rightarrow> Inl e
      | Inr phasor \<Rightarrow>
          (case Phasor_setFreq phasor x h of Inl e \<Rightarrow> Inl e | Inr h' \<Rightarrow> Inr (self, h')))"

definition TriOsc_setPhase :: "pyinstance \<Rightarrow> pyval \<Rightarrow> heap \<Rightarrow> error + pyinstance \<times> heap" where
  "TriOsc_setPhase self x h =
     (let self = setattr self ''_phase'' (Param x) in
      case param self ''_phasor'' of
        Inl e \<Rightarrow> Inl e
      | Inr phasor \<Rightarrow>
          (case Phasor_setPhase phasor x h of Inl e \<Rightarrow> Inl e | Inr h' \<Rightarrow> Inr (self, h')))"

text \<open>
  The loops of \<^verbatim>\<open>TriOsc.play\<close>, \<^verbatim>\<open>stop\<close> and \<^verbatim>\<open>out\<close> over \<^verbatim>\<open>self.__dict__.keys()\<close>: an
  attribute that is an instance of \<^verbatim>\<open>PyoObject\<close> is played (stopped), any other is skipped.
  The loop of \<^verbatim>\<open>out\<close> calls \<^verbatim>\<open>play\<close> as well.
\<close>

fun play_attrs :: "string list \<Rightarrow> pyinstance \<Rightarrow> real \<Rightarrow> real \<Rightarrow> heap \<Rightarrow> heap" where
  "play_attrs [] self dur delay h = h"
| "play_attrs (key # keys) self dur delay h =
     (case getattr self key of
        Some (Param (Obj r)) \<Rightarrow> play_attrs keys self dur delay (obj_play r dur delay h)
      | _ \<Rightarrow> play_attrs keys self dur delay h)"

fun stop_attrs :: "string list \<Rightarrow> pyinstance \<Rightarrow> heap \<Rightarrow> heap" where
  "stop_attrs [] self h = h"
| "stop_attrs (key # keys) self h =
     (case getattr self key of
        Some (Param (Obj r)) \<Rightarrow> stop_attrs keys self (obj_stop r h)
      | _ \<Rightarrow> stop_attrs keys self h)"

definition keys :: "pyinstance \<Rightarrow> string list" where
  "keys self = map fst self"

definition TriOsc_play :: "pyinstance \<Rightarrow> real \<Rightarrow> real \<Rightarrow> heap \<Rightarrow> heap" where
  "TriOsc_play self dur delay h =
     PyoObject_play self dur delay (play_attrs (keys self) self dur delay h)"

definition TriOsc_stop :: "pyinstance \<Rightarrow> heap \<Rightarrow> heap" where
  "TriOsc_stop self h = PyoObject_stop self (stop_attrs (keys self) self h)"

definition TriOsc_out :: "pyinstance \<Rightarrow> int \<Rightarrow> int \<Rightarrow> real \<Rightarrow> real \<Rightarrow> heap \<Rightarrow> heap" where
  "TriOsc_out self c inc dur delay h =
     PyoObject_out self c inc dur delay (play_attrs (keys self) self dur delay h)"

section \<open>Examples\<close>

text \<open>
  The scenario of the specification, \<^verbatim>\<open>BrkPntOsc(freq=200, breakpoint=0.5)\<close>, and the test case
  of \<^verbatim>\<open>triosc.py\<close>, \<^verbatim>\<open>TriOsc(freq=200, mul=.2)\<close>, each built in an empty store; and a store
  that already holds a \<^verbatim>\<open>Sig(0.4)\<close>, to be passed as a breakpoint that is a signal.
\<close>

definition brk_example :: "pyinstance \<times> heap" where
  "brk_example = BrkPntOsc_init (Num 200) (Num 0) (Num (1/2)) (Num 1) (Num 0) empty_heap"

definition tri_example :: "pyinstance \<times> heap" where
  "tri_example = TriOsc_init (Num 200) (Num 0) (Num (1/5)) (Num 0) empty_heap"

definition sig_heap :: heap where
  "sig_heap = snd (new_Sig (Num (2/5)) (Num 1) (Num 0) empty_heap)"

section \<open>Evaluation lemmas\<close>

lemma opt2_Some:
  "opt2 f a b = Some s \<longleftrightarrow> (\<exists>x y. a = Some x \<and> b = Some y \<and> s = f x y)"
  by (cases a; cases b) auto

lemma opt3_Some:
  "opt3 f a b c = Some s \<longleftrightarrow> (\<exists>x y z. a = Some x \<and> b = Some y \<and> c = Some z \<and> s = f x y z)"
  by (cases a; cases b; cases c) auto

text \<open>
  More fuel and more objects never change a sample that has been computed: the fuel of
  \<open>cur\<close> is enough whenever any amount is.
\<close>

lemma sample_of_mono:
  "sample_of n h env v = Some s \<Longrightarrow> n \<le> n' \<Longrightarrow> objs h \<subseteq>\<^sub>m objs h'
    \<Longrightarrow> sample_of n' h' env v = Some s"
proof (induction n h env v arbitrary: n' s rule: sample_of.induct)
  case (1 n h env x)
  then show ?case by simp
next
  case (2 h env r)
  then show ?case by simp
next
  case (3 n h env r)
  from "3.prems"(2) obtain k where n': "n' = Suc k" and le: "n \<le> k"
    by (cases n') auto
  from "3.prems"(1) obtain ob where ob: "objs h r = Some ob"
    by (auto split: option.splits)
  with "3.prems"(3) have ob': "objs h' r = Some ob"
    by (auto simp: map_le_def dom_def)
  show ?case
  proof (cases "node ob")
    case (PhasorObj f p)
    with "3.prems"(1) ob ob' n' show ?thesis by simp
  next
    case (SigObj a b c)
    with "3.prems"(1) ob ob' n' le "3.prems"(3) "3.IH"(1-3)[OF ob SigObj] show ?thesis
      by (auto simp: opt3_Some)
  next
    case (ArithObj bop a b)
    with "3.prems"(1) ob ob' n' le "3.prems"(3) "3.IH"(4,5)[OF ob ArithObj] show ?thesis
      by (auto simp: opt2_Some)
  next
    case (CompareObj c a b)
    with "3.prems"(1) ob ob' n' le "3.prems"(3) "3.IH"(6,7)[OF ob CompareObj] show ?thesis
      by (auto simp: opt2_Some)
  next
    case (MinObj a b c d)
    with "3.prems"(1) ob ob' n' le "3.prems"(3) "3.IH"(8-11)[OF ob MinObj] show ?thesis
      by (auto simp: opt2_Some opt3_Some)
  qed
qed

lemma map_le_fresh:
  "heap_ok h0 \<Longrightarrow> nxt h0 \<le> k \<Longrightarrow> objs h0 \<subseteq>\<^sub>m m \<Longrightarrow> objs h0 \<subseteq>\<^sub>m m(k \<mapsto> x)"
  by (auto simp: heap_ok_def map_le_def dom_def)

text \<open>
  An argument that had a sample before the oscillator was built (a float, or a signal that
  exists already) has the same sample in the store the constructor returns.
\<close>

lemma ext_simp:
  "heap_ok h0 \<Longrightarrow> nxt h0 \<le> n \<Longrightarrow> objs h0 \<subseteq>\<^sub>m M \<Longrightarrow> cur h0 env v \<noteq> None
    \<Longrightarrow> sample_of n (h0\<lparr>objs := M, nxt := N\<rparr>) env v = cur h0 env v"
  using sample_of_mono[of "nxt h0" h0 env v _ n "h0\<lparr>objs := M, nxt := N\<rparr>"]
  by (auto simp: cur_def)

lemma attr_cur_unfold:
  "attr_cur h env self key =
     (case map_of self key of Some (Param v) \<Rightarrow> sample_of (nxt h) h env v | _ \<Rightarrow> None)"
  by (simp add: attr_cur_def cur_def getattr_def split: option.splits attr.splits)

lemma raw_cur_unfold:
  "raw_cur h env self =
     (case map_of self ''_osc'' of
        Some (Param v) \<Rightarrow>
          (case Sig_value h v of Some x \<Rightarrow> sample_of (nxt h) h env x | None \<Rightarrow> None)
      | _ \<Rightarrow> None)"
  by (simp add: raw_cur_def cur_def getattr_def split: option.splits attr.splits)

lemmas alloc_defs = PyoObject_init_def setattr_def alloc_def new_Sig_def new_Phasor_def
  new_Min_def arith_def compare_def Let_def

lemmas init_defs = BrkPntOsc_init_def alloc_defs

lemmas tri_defs = TriOsc_init_def alloc_defs

lemma heap_ok_empty: "heap_ok empty_heap"
  by (simp add: heap_ok_def empty_heap_def)

lemma heap_ok_sig_heap: "heap_ok sig_heap"
  by (simp add: heap_ok_def sig_heap_def empty_heap_def alloc_defs)

lemma cur_sig_heap: "cur sig_heap env (Obj 0) = Some (Fin (2/5))"
  by (simp add: cur_def sig_heap_def empty_heap_def alloc_defs scale_def)

section \<open>The waveform of the breakpoint oscillator\<close>

text \<open>
  The samples of the signals of a breakpoint oscillator, for a breakpoint \<open>b\<close> that is
  neither 0 nor 1 and a phasor at \<open>p\<close>.
\<close>

lemma BrkPntOsc_values:
  assumes "heap_ok h0"
    and "cur h0 env breakpoint = Some (Fin b)"
    and "BrkPntOsc_init freq phase breakpoint mul add h0 = (self, h)"
    and "attr_cur h env self ''_phasor'' = Some (Fin p)"
    and "b \<noteq> 0" and "b \<noteq> 1"
  shows "attr_cur h env self ''_rising'' = Some (Fin (p / b * (if p < b then 1 else 0)))"
    and "attr_cur h env self ''_falling'' =
           Some (Fin (((p - b) / (1 - b) * (-1) + 1) * (if p \<ge> b then 1 else 0)))"
    and "raw_cur h env self =
           Some (Fin (p / b * (if p < b then 1 else 0)
                      + ((p - b) / (1 - b) * (-1) + 1) * (if p \<ge> b then 1 else 0)))"
    and "attr_cur h env self ''_osc'' =
           Some (Fin (2 * (if p < b then p / b else 1 - (p - b) / (1 - b)) - 1))"
  using assms
  by (clarsimp simp add: init_defs attr_cur_unfold raw_cur_unfold Sig_value_def scale_def
      ext_simp map_le_fresh)+

lemma ramp_range:
  fixes p b :: real
  assumes "0 \<le> p" and "p < 1" and "0 < b" and "b < 1"
  shows "0 \<le> (if p < b then p / b else 1 - (p - b) / (1 - b))"
    and "(if p < b then p / b else 1 - (p - b) / (1 - b)) \<le> 1"
  using assms by (auto simp: divide_simps)

lemma brk_example_collapse:
  "BrkPntOsc_init (Num 200) (Num 0) (Num (1/2)) (Num 1) (Num 0) empty_heap =
     (fst brk_example, snd brk_example)"
  by (simp add: brk_example_def)

lemma brk_example_phasor:
  "attr_cur (snd brk_example) (\<lambda>r. x) (fst brk_example) ''_phasor'' = Some (Fin x)"
  by (simp add: brk_example_def init_defs empty_heap_def attr_cur_unfold)

text \<open>
  Claim C1. For a phasor value \<open>p\<close> in [0,1) and a breakpoint value \<open>b\<close> in (0,1), the
  rising signal is \<open>p / b\<close> masked by \<open>p < b\<close>, the falling signal is
  \<open>(p - b) / (1 - b) * (-1) + 1\<close> masked by \<open>p \<ge> b\<close>, and the raw waveform is their sum:
  \<open>p / b\<close> when \<open>p < b\<close>, and \<open>1 - (p - b) / (1 - b)\<close> when \<open>p \<ge> b\<close>.
\<close>

theorem BrkPntOsc_raw_segment:
  assumes "heap_ok h0"
    and "cur h0 env breakpoint = Some (Fin b)"
    and "BrkPntOsc_init freq phase breakpoint mul add h0 = (self, h)"
    and "attr_cur h env self ''_phasor'' = Some (Fin p)"
    and "0 \<le> p" and "p < 1" and "0 < b" and "b < 1"
  shows "\<exists>r f. attr_cur h env self ''_rising'' = Some (Fin r)
           \<and> r = p / b * (if p < b then 1 else 0)
           \<and> attr_cur h env self ''_falling'' = Some (Fin f)
           \<and> f = ((p - b) / (1 - b) * (-1) + 1) * (if p \<ge> b then 1 else 0)
           \<and> raw_cur h env self = Some (Fin (r + f))
           \<and> (p < b \<longrightarrow> r + f = p / b)
           \<and> (p \<ge> b \<longrightarrow> r + f = 1 - (p - b) / (1 - b))"
proof -
  from assms(7,8) have b: "b \<noteq> 0" "b \<noteq> 1" by auto
  note v = BrkPntOsc_values[OF assms(1-4) b]
  show ?thesis
    by (intro exI conjI, rule v(1), rule refl, rule v(2), rule refl, rule v(3)) auto
qed

theorem BrkPntOsc_raw_segment_witness:
  "heap_ok empty_heap
   \<and> cur empty_heap (\<lambda>r. 3/4) (Num (1/2)) = Some (Fin (1/2))
   \<and> attr_cur (snd brk_example) (\<lambda>r. 3/4) (fst brk_example) ''_phasor'' = Some (Fin (3/4))
   \<and> attr_cur (snd brk_example) (\<lambda>r. 3/4) (fst brk_example) ''_rising'' = Some (Fin 0)
   \<and> attr_cur (snd brk_example) (\<lambda>r. 3/4) (fst brk_example) ''_falling'' = Some (Fin (1/2))
   \<and> raw_cur (snd brk_example) (\<lambda>r. 3/4) (fst brk_example) = Some (Fin (1/2))"
proof -
  have c: "cur empty_heap (\<lambda>r. 3/4) (Num (1/2)) = Some (Fin (1/2))"
    by (simp add: cur_def)
  from BrkPntOsc_raw_segment[OF heap_ok_empty c brk_example_collapse brk_example_phasor]
  obtain r f :: real
    where "attr_cur (snd brk_example) (\<lambda>r. 3/4) (fst brk_example) ''_rising'' = Some (Fin r)"
      and "r = 3/4 / (1/2) * (if (3/4::real) < 1/2 then 1 else 0)"
      and "attr_cur (snd brk_example) (\<lambda>r. 3/4) (fst brk_example) ''_falling'' = Some (Fin f)"
      and "f = ((3/4 - 1/2) / (1 - 1/2) * (-1) + 1) * (if (3/4::real) \<ge> 1/2 then 1 else 0)"
      and "raw_cur (snd brk_example) (\<lambda>r. 3/4) (fst brk_example) = Some (Fin (r + f))"
    by force
  with heap_ok_empty c brk_example_phasor[of "3/4"] show ?thesis by simp
qed

lemma tri_example_collapse:
  "TriOsc_init (Num 200) (Num 0) (Num (1/5)) (Num 0) empty_heap =
     (fst tri_example, snd tri_example)"
  by (simp add: tri_example_def)

lemma tri_example_phasor:
  "attr_cur (snd tri_example) (\<lambda>r. x) (fst tri_example) ''_phasor'' = Some (Fin x)"
  by (simp add: tri_example_def tri_defs empty_heap_def attr_cur_unfold)

lemma cur_Num: "cur h env (Num x) = Some (Fin x)"
  by (simp add: cur_def)

text \<open>
  Claim C2. For a phasor value \<open>p\<close> in [0,1), the inverted phasor of the triangle oscillator
  is \<open>1 - p\<close>; with \<open>raw = min p (1 - p)\<close>, which lies in [0, 1/2], is 1/2 exactly at
  \<open>p = 1/2\<close> and is 0 at \<open>p = 0\<close>, the \<^verbatim>\<open>Min\<close> object gives \<open>4 * raw - 1\<close> and the output is
  \<open>(4 * raw - 1) * mul + add\<close>.
\<close>

theorem TriOsc_output:
  assumes "heap_ok h0"
    and "cur h0 env mul = Some (Fin m)"
    and "cur h0 env add = Some (Fin a)"
    and "TriOsc_init freq phase mul add h0 = (self, h)"
    and "attr_cur h env self ''_phasor'' = Some (Fin p)"
    and "0 \<le> p" and "p < 1"
  shows "attr_cur h env self ''_inv_phasor'' = Some (Fin (1 - p))
       \<and> (\<exists>raw. raw = min p (1 - p)
            \<and> attr_cur h env self ''_min'' = Some (Fin (4 * raw - 1))
            \<and> attr_cur h env self ''_output'' = Some (Fin ((4 * raw - 1) * m + a))
            \<and> 0 \<le> raw \<and> raw \<le> 1/2 \<and> (raw = 1/2 \<longleftrightarrow> p = 1/2) \<and> (p = 0 \<longrightarrow> raw = 0))"
  using assms
  by (clarsimp simp add: tri_defs attr_cur_unfold scale_def ext_simp map_le_fresh min_def)

theorem TriOsc_output_witness:
  "heap_ok empty_heap
   \<and> cur empty_heap (\<lambda>r. 1/2) (Num (1/5)) = Some (Fin (1/5))
   \<and> cur empty_heap (\<lambda>r. 1/2) (Num 0) = Some (Fin 0)
   \<and> attr_cur (snd tri_example) (\<lambda>r. 1/2) (fst tri_example) ''_phasor'' = Some (Fin (1/2))
   \<and> attr_cur (snd tri_example) (\<lambda>r. 1/2) (fst tri_example) ''_inv_phasor'' = Some (Fin (1/2))
   \<and> attr_cur (snd tri_example) (\<lambda>r. 1/2) (fst tri_example) ''_min'' = Some (Fin 1)
   \<and> attr_cur (snd tri_example) (\<lambda>r. 1/2) (fst tri_example) ''_output'' = Some (Fin (1/5))"
proof -
  from TriOsc_output[OF heap_ok_empty cur_Num cur_Num tri_example_collapse
      tri_example_phasor[of "1/2"]]
  obtain raw :: real
    where "raw = min (1/2) (1 - 1/2)"
      and "attr_cur (snd tri_example) (\<lambda>r. 1/2) (fst tri_example) ''_inv_phasor''
             = Some (Fin (1 - 1/2))"
      and "attr_cur (snd tri_example) (\<lambda>r. 1/2) (fst tri_example) ''_min''
             = Some (Fin (4 * raw - 1))"
      and "attr_cur (snd tri_example) (\<lambda>r. 1/2) (fst tri_example) ''_output''
             = Some (Fin ((4 * raw - 1) * (1/5) + 0))"
    by force
  with heap_ok_empty tri_example_phasor[of "1/2"] show ?thesis
    by (simp add: cur_Num)
qed

text \<open>
  Claim C4. With the breakpoint 1/2, the signal \<^verbatim>\<open>_osc\<close> of the breakpoint oscillator (twice
  the sum of the masked rising and falling segments, minus 1) and the signal \<^verbatim>\<open>_min\<close> of the
  triangle oscillator (four times the minimum of the phasor and its inverse, minus 1) have the
  same sample at the same phasor value \<open>p\<close> in [0,1).
\<close>

theorem BrkPntOsc_half_is_TriOsc:
  assumes "BrkPntOsc_init freq phase (Num (1/2)) mul add h0 = (self, h)"
    and "TriOsc_init freq' phase' mul' add' h0' = (self', h')"
    and "attr_cur h env self ''_phasor'' = Some (Fin p)"
    and "attr_cur h' env' self' ''_phasor'' = Some (Fin p)"
    and "0 \<le> p" and "p < 1"
  shows "attr_cur h env self ''_osc'' = Some (Fin (4 * min p (1 - p) - 1))
       \<and> attr_cur h' env' self' ''_min'' = Some (Fin (4 * min p (1 - p) - 1))
       \<and> attr_cur h env self ''_osc'' = attr_cur h' env' self' ''_min''"
  using assms
  by (clarsimp simp add: BrkPntOsc_init_def tri_defs attr_cur_unfold scale_def min_def)

theorem BrkPntOsc_half_is_TriOsc_witness:
  "attr_cur (snd brk_example) (\<lambda>r. 1/4) (fst brk_example) ''_phasor'' = Some (Fin (1/4))
   \<and> attr_cur (snd tri_example) (\<lambda>r. 1/4) (fst tri_example) ''_phasor'' = Some (Fin (1/4))
   \<and> attr_cur (snd brk_example) (\<lambda>r. 1/4) (fst brk_example) ''_osc'' = Some (Fin 0)
   \<and> attr_cur (snd tri_example) (\<lambda>r. 1/4) (fst tri_example) ''_min'' = Some (Fin 0)"
  using BrkPntOsc_half_is_TriOsc[OF brk_example_collapse tri_example_collapse
      brk_example_phasor[of "1/4"] tri_example_phasor[of "1/4"]]
    brk_example_phasor[of "1/4"] tri_example_phasor[of "1/4"]
  by simp

text \<open>
  Claim C6. For a phasor value \<open>p\<close> in [0,1) and a breakpoint value \<open>b\<close> in (0,1), the raw
  waveform \<open>raw\<close> of the breakpoint oscillator is the sum of the masked rising and falling
  segments, that is \<open>p / b\<close> when \<open>p < b\<close> and \<open>1 - (p - b) / (1 - b)\<close> otherwise; the
  signal \<^verbatim>\<open>_osc\<close> is \<open>2 * raw - 1\<close> and the output is \<open>(2 * raw - 1) * mul + add\<close>. At
  breakpoint 0.5 and phasor value 0.25, with \<open>mul = 1\<close> and \<open>add = 0\<close>, the raw waveform is 0.5
  and the output is 0.
\<close>

theorem BrkPntOsc_output:
  assumes "heap_ok h0"
    and "cur h0 env breakpoint = Some (Fin b)"
    and "cur h0 env mul = Some (Fin m)"
    and "cur h0 env add = Some (Fin a)"
    and "BrkPntOsc_init freq phase breakpoint mul add h0 = (self, h)"
    and "attr_cur h env self ''_phasor'' = Some (Fin p)"
    and "0 \<le> p" and "p < 1" and "0 < b" and "b < 1"
  shows "(\<exists>raw. raw = p / b * (if p < b then 1 else 0)
                    + ((p - b) / (1 - b) * (-1) + 1) * (if p \<ge> b then 1 else 0)
            \<and> raw = (if p < b then p / b else 1 - (p - b) / (1 - b))
            \<and> raw_cur h env self = Some (Fin raw)
            \<and> attr_cur h env self ''_osc'' = Some (Fin (2 * raw - 1))
            \<and> attr_cur h env self ''_output'' = Some (Fin ((2 * raw - 1) * m + a)))
       \<and> raw_cur (snd brk_example) (\<lambda>r. 1/4) (fst brk_example) = Some (Fin (1/2))
       \<and> attr_cur (snd brk_example) (\<lambda>r. 1/4) (fst brk_example) ''_output'' = Some (Fin 0)"
proof -
  define raw where "raw = (if p < b then p / b else 1 - (p - b) / (1 - b))"
  from assms(9,10) have b: "b \<noteq> 0" "b \<noteq> 1" by auto
  note v = BrkPntOsc_values[OF assms(1,2,5,6) b]
  have e: "raw = p / b * (if p < b then 1 else 0)
                    + ((p - b) / (1 - b) * (-1) + 1) * (if p \<ge> b then 1 else 0)"
    by (simp add: raw_def)
  have r: "raw_cur h env self = Some (Fin raw)"
    using v(3) e by simp
  have o: "attr_cur h env self ''_osc'' = Some (Fin (2 * raw - 1))"
    using v(4) by (simp add: raw_def)
  have "attr_cur h env self ''_output'' =
      Some (Fin ((2 * (if p < b then p / b else 1 - (p - b) / (1 - b)) - 1) * m + a))"
    using assms
    by (clarsimp simp add: init_defs attr_cur_unfold scale_def ext_simp map_le_fresh)
  then have u: "attr_cur h env self ''_output'' = Some (Fin ((2 * raw - 1) * m + a))"
    by (simp add: raw_def)
  have c1: "raw_cur (snd brk_example) (\<lambda>r. 1/4) (fst brk_example) = Some (Fin (1/2))"
    by (simp add: brk_example_def init_defs empty_heap_def raw_cur_unfold Sig_value_def scale_def)
  have c2: "attr_cur (snd brk_example) (\<lambda>r. 1/4) (fst brk_example) ''_output'' = Some (Fin 0)"
    by (simp add: brk_example_def init_defs empty_heap_def attr_cur_unfold scale_def)
  from e r o u c1 c2 show ?thesis
    unfolding raw_def by blast
qed

theorem BrkPntOsc_output_witness:
  "heap_ok sig_heap
   \<and> cur sig_heap (\<lambda>r. 1/10) (Obj 0) = Some (Fin (2/5))
   \<and> cur sig_heap (\<lambda>r. 1/10) (Num (1/5)) = Some (Fin (1/5))
   \<and> cur sig_heap (\<lambda>r. 1/10) (Num (3/10)) = Some (Fin (3/10))
   \<and> attr_cur (snd (BrkPntOsc_init (Num 200) (Num 0) (Obj 0) (Num (1/5)) (Num (3/10)) sig_heap))
        (\<lambda>r. 1/10)
        (fst (BrkPntOsc_init (Num 200) (Num 0) (Obj 0) (Num (1/5)) (Num (3/10)) sig_heap))
        ''_phasor'' = Some (Fin (1/10))
   \<and> raw_cur (snd (BrkPntOsc_init (Num 200) (Num 0) (Obj 0) (Num (1/5)) (Num (3/10)) sig_heap))
        (\<lambda>r. 1/10)
        (fst (BrkPntOsc_init (Num 200) (Num 0) (Obj 0) (Num (1/5)) (Num (3/10)) sig_heap))
        = Some (Fin (1/4))
   \<and> attr_cur (snd (BrkPntOsc_init (Num 200) (Num 0) (Obj 0) (Num (1/5)) (Num (3/10)) sig_heap))
        (\<lambda>r. 1/10)
        (fst (BrkPntOsc_init (Num 200) (Num 0) (Obj 0) (Num (1/5)) (Num (3/10)) sig_heap))
        ''_osc'' = Some (Fin (- 1/2))
   \<and> attr_cur (snd (BrkPntOsc_init (Num 200) (Num 0) (Obj 0) (Num (1/5)) (Num (3/10)) sig_heap))
        (\<lambda>r. 1/10)
        (fst (BrkPntOsc_init (Num 200) (Num 0) (Obj 0) (Num (1/5)) (Num (3/10)) sig_heap))
        ''_output'' = Some (Fin (1/5))
   \<and> attr_cur (snd (BrkPntOsc_init (Num 200) (Num 0) (Obj 0) (Num (1/5)) (Num (3/10)) sig_heap))
        (\<lambda>r. 4/5)
        (fst (BrkPntOsc_init (Num 200) (Num 0) (Obj 0) (Num (1/5)) (Num (3/10)) sig_heap))
        ''_output'' = Some (Fin (7/30))"
proof -
  let ?I = "BrkPntOsc_init (Num 200) (Num 0) (Obj 0) (Num (1/5)) (Num (3/10)) sig_heap"
  have ph: "attr_cur (snd ?I) (\<lambda>r. x) (fst ?I) ''_phasor'' = Some (Fin x)" for x
    by (simp add: init_defs attr_cur_unfold)
  have i: "?I = (fst ?I, snd ?I)" by simp
  from BrkPntOsc_output[OF heap_ok_sig_heap cur_sig_heap cur_Num cur_Num i ph[of "1/10"]]
  obtain raw :: real
    where r0: "raw = (if (1/10::real) < 2/5 then 1/10 / (2/5) else 1 - (1/10 - 2/5) / (1 - 2/5))"
      and r1: "raw_cur (snd ?I) (\<lambda>r. 1/10) (fst ?I) = Some (Fin raw)"
      and r2: "attr_cur (snd ?I) (\<lambda>r. 1/10) (fst ?I) ''_osc'' = Some (Fin (2 * raw - 1))"
      and r3: "attr_cur (snd ?I) (\<lambda>r. 1/10) (fst ?I) ''_output''
             = Some (Fin ((2 * raw - 1) * (1/5) + 3/10))"
    by force
  from r0 have "raw = 1/4" by simp
  with r1 r2 r3 have lo: "raw_cur (snd ?I) (\<lambda>r. 1/10) (fst ?I) = Some (Fin (1/4))"
      "attr_cur (snd ?I) (\<lambda>r. 1/10) (fst ?I) ''_osc'' = Some (Fin (- 1/2))"
      "attr_cur (snd ?I) (\<lambda>r. 1/10) (fst ?I) ''_output'' = Some (Fin (1/5))"
    by simp_all
  from BrkPntOsc_output[OF heap_ok_sig_heap cur_sig_heap cur_Num cur_Num i ph[of "4/5"]]
  obtain raw' :: real
    where s0: "raw' = (if (4/5::real) < 2/5 then 4/5 / (2/5) else 1 - (4/5 - 2/5) / (1 - 2/5))"
      and s3: "attr_cur (snd ?I) (\<lambda>r. 4/5) (fst ?I) ''_output''
             = Some (Fin ((2 * raw' - 1) * (1/5) + 3/10))"
    by force
  from s0 have "raw' = 1/3" by simp
  with s3 have hi: "attr_cur (snd ?I) (\<lambda>r. 4/5) (fst ?I) ''_output'' = Some (Fin (7/30))"
    by simp
  from lo hi heap_ok_sig_heap cur_sig_heap[of "\<lambda>r. 1/10"] ph[of "1/10"] show ?thesis
    by (simp add: cur_Num)
qed

text \<open>
  Claim C7. For a phasor value \<open>p\<close> in [0,1) and a breakpoint value \<open>b\<close> in (0,1), the raw
  waveform of the breakpoint oscillator lies in [0,1].
\<close>

theorem BrkPntOsc_raw_range:
  assumes "heap_ok h0"
    and "cur h0 env breakpoint = Some (Fin b)"
    and "BrkPntOsc_init freq phase breakpoint mul add h0 = (self, h)"
    and "attr_cur h env self ''_phasor'' = Some (Fin p)"
    and "0 \<le> p" and "p < 1" and "0 < b" and "b < 1"
  shows "\<exists>raw. raw_cur h env self = Some (Fin raw) \<and> 0 \<le> raw \<and> raw \<le> 1"
proof -
  from assms(7,8) have b: "b \<noteq> 0" "b \<noteq> 1" by auto
  have "raw_cur h env self = Some (Fin (if p < b then p / b else 1 - (p - b) / (1 - b)))"
    using BrkPntOsc_values(3)[OF assms(1-4) b] by simp
  with ramp_range[OF assms(5-8)] show ?thesis by blast
qed

theorem BrkPntOsc_raw_range_witness:
  "heap_ok sig_heap
   \<and> cur sig_heap (\<lambda>r. 7/10) (Obj 0) = Some (Fin (2/5))
   \<and> attr_cur (snd (BrkPntOsc_init (Num 200) (Num 0) (Obj 0) (Num 1) (Num 0) sig_heap))
        (\<lambda>r. 7/10) (fst (BrkPntOsc_init (Num 200) (Num 0) (Obj 0) (Num 1) (Num 0) sig_heap))
        ''_phasor'' = Some (Fin (7/10))
   \<and> (\<exists>raw. raw_cur (snd (BrkPntOsc_init (Num 200) (Num 0) (Obj 0) (Num 1) (Num 0) sig_heap))
        (\<lambda>r. 7/10) (fst (BrkPntOsc_init (Num 200) (Num 0) (Obj 0) (Num 1) (Num 0) sig_heap))
        = Some (Fin raw) \<and> 0 \<le> raw \<and> raw \<le> 1)"
proof -
  let ?I = "BrkPntOsc_init (Num 200) (Num 0) (Obj 0) (Num 1) (Num 0) sig_heap"
  have ph: "attr_cur (snd ?I) (\<lambda>r. 7/10) (fst ?I) ''_phasor'' = Some (Fin (7/10))"
    by (simp add: init_defs attr_cur_unfold)
  have i: "?I = (fst ?I, snd ?I)" by simp
  from BrkPntOsc_raw_range[OF heap_ok_sig_heap cur_sig_heap i ph]
  have "\<exists>raw. raw_cur (snd ?I) (\<lambda>r. 7/10) (fst ?I) = Some (Fin raw) \<and> 0 \<le> raw \<and> raw \<le> 1"
    by simp
  with heap_ok_sig_heap cur_sig_heap[of "\<lambda>r. 7/10"] ph show ?thesis by blast
qed

section \<open>Setters\<close>

lemma getattr_setattr:
  "getattr (setattr self k v) k' = (if k' = k then Some v else getattr self k')"
  by (simp add: getattr_def setattr_def update_conv)

lemma BrkPntOsc_setFreq_eq:
  assumes "getattr self ''_phasor'' = Some (Param (Obj r))" and "objs h r = Some ob"
    and "node ob = PhasorObj f ph"
  shows "BrkPntOsc_setFreq self x h =
     Inr (setattr self ''_freq'' (Param x),
          h\<lparr>objs := (objs h)(r \<mapsto> ob\<lparr>node := PhasorObj x ph\<rparr>)\<rparr>)"
  using assms
  by (simp add: BrkPntOsc_setFreq_def param_def getattr_setattr Phasor_setFreq_def)

lemma TriOsc_setFreq_eq:
  assumes "getattr self ''_phasor'' = Some (Param (Obj r))" and "objs h r = Some ob"
    and "node ob = PhasorObj f ph"
  shows "TriOsc_setFreq self x h =
     Inr (setattr self ''_freq'' (Param x),
          h\<lparr>objs := (objs h)(r \<mapsto> ob\<lparr>node := PhasorObj x ph\<rparr>)\<rparr>)"
  using assms
  by (simp add: TriOsc_setFreq_def param_def getattr_setattr Phasor_setFreq_def)

lemma BrkPntOsc_setPhase_eq:
  assumes "getattr self ''_phasor'' = Some (Param (Obj r))" and "objs h r = Some ob"
    and "node ob = PhasorObj f ph"
  shows "BrkPntOsc_setPhase self x h =
     Inr (setattr self ''_phase'' (Param x),
          h\<lparr>objs := (objs h)(r \<mapsto> ob\<lparr>node := PhasorObj f x\<rparr>)\<rparr>)"
  using assms
  by (simp add: BrkPntOsc_setPhase_def param_def getattr_setattr Phasor_setPhase_def)

lemma TriOsc_setPhase_eq:
  assumes "getattr self ''_phasor'' = Some (Param (Obj r))" and "objs h r = Some ob"
    and "node ob = PhasorObj f ph"
  shows "TriOsc_setPhase self x h =
     Inr (setattr self ''_phase'' (Param x),
          h\<lparr>objs := (objs h)(r \<mapsto> ob\<lparr>node := PhasorObj f x\<rparr>)\<rparr>)"
  using assms
  by (simp add: TriOsc_setPhase_def param_def getattr_setattr Phasor_setPhase_def)

lemma BrkPntOsc_setBrkPnt_eq:
  assumes "getattr self ''_breakpoint'' = Some (Param (Obj r))" and "objs h r = Some ob"
    and "node ob = SigObj v m a"
  shows "BrkPntOsc_setBrkPnt self x h =
     Inr (self, h\<lparr>objs := (objs h)(r \<mapsto> ob\<lparr>node := SigObj x m a\<rparr>)\<rparr>)"
  using assms by (simp add: BrkPntOsc_setBrkPnt_def param_def Sig_setValue_def)

lemma brk_example_breakpoint:
  "getattr (fst brk_example) ''_breakpoint'' = Some (Param (Obj 0))"
  "objs (snd brk_example) 0 =
     Some \<lparr>node = SigObj (Num (1/2)) (Num 1) (Num 0), active = True, chnl = None\<rparr>"
  by (simp_all add: brk_example_def init_defs empty_heap_def getattr_def)

lemma brk_example_phasor_obj:
  "getattr (fst brk_example) ''_phasor'' = Some (Param (Obj 2))"
  "objs (snd brk_example) 2 =
     Some \<lparr>node = PhasorObj (Num 200) (Num 0), active = True, chnl = None\<rparr>"
  by (simp_all add: brk_example_def init_defs empty_heap_def getattr_def eval_nat_numeral)

text \<open>
  Claim C8. \<^verbatim>\<open>setBrkPnt\<close> puts the new value into the \<^verbatim>\<open>Sig\<close> object that the attribute
  \<^verbatim>\<open>_breakpoint\<close> holds. The instance is returned as it was, so every attribute, \<^verbatim>\<open>_breakpoint\<close>
  included, refers to the same object as before; the \<^verbatim>\<open>mul\<close>, \<^verbatim>\<open>add\<close> and activation of that
  object are kept, and no other object of the store changes.
\<close>

theorem setBrkPnt_frame:
  assumes "getattr self ''_breakpoint'' = Some (Param (Obj r))" and "objs h r = Some ob"
    and "node ob = SigObj v m a"
  shows "\<exists>h'. BrkPntOsc_setBrkPnt self x h = Inr (self, h')
           \<and> objs h' r = Some (ob\<lparr>node := SigObj x m a\<rparr>)
           \<and> Sig_value h' (Obj r) = Some x
           \<and> (\<forall>r'. r' \<noteq> r \<longrightarrow> objs h' r' = objs h r')
           \<and> nxt h' = nxt h"
  by (simp add: BrkPntOsc_setBrkPnt_eq[OF assms] Sig_value_def)

theorem setBrkPnt_frame_witness:
  "getattr (fst brk_example) ''_breakpoint'' = Some (Param (Obj 0))
   \<and> objs (snd brk_example) 0 =
       Some \<lparr>node = SigObj (Num (1/2)) (Num 1) (Num 0), active = True, chnl = None\<rparr>
   \<and> (\<exists>h'. BrkPntOsc_setBrkPnt (fst brk_example) (Num (1/4)) (snd brk_example)
              = Inr (fst brk_example, h')
           \<and> objs h' 0 =
               Some \<lparr>node = SigObj (Num (1/4)) (Num 1) (Num 0), active = True, chnl = None\<rparr>
           \<and> Sig_value h' (Obj 0) = Some (Num (1/4))
           \<and> (\<forall>r'. r' \<noteq> 0 \<longrightarrow> objs h' r' = objs (snd brk_example) r')
           \<and> nxt h' = nxt (snd brk_example))"
  using setBrkPnt_frame[OF brk_example_breakpoint, of "Num (1/2)" "Num 1" "Num 0" "Num (1/4)"]
    brk_example_breakpoint
  by simp

text \<open>
  Claim C9. On either oscillator, \<^verbatim>\<open>setFreq\<close> stores the new value in the attribute \<^verbatim>\<open>_freq\<close>
  and in the frequency of the phasor object, and \<^verbatim>\<open>setPhase\<close> stores it in \<^verbatim>\<open>_phase\<close> and in
  the phase of the phasor object. Every other attribute is as before, the other argument and
  the activation of the phasor are kept, and no other object of the store changes.
\<close>

theorem setFreq_setPhase_frame:
  assumes "getattr self ''_phasor'' = Some (Param (Obj r))" and "objs h r = Some ob"
    and "node ob = PhasorObj f ph"
  shows "(\<forall>setFreq \<in> {BrkPntOsc_setFreq, TriOsc_setFreq}.
            \<exists>self' h'. setFreq self x h = Inr (self', h')
              \<and> getattr self' ''_freq'' = Some (Param x)
              \<and> (\<forall>k. k \<noteq> ''_freq'' \<longrightarrow> getattr self' k = getattr self k)
              \<and> objs h' r = Some (ob\<lparr>node := PhasorObj x ph\<rparr>)
              \<and> (\<forall>r'. r' \<noteq> r \<longrightarrow> objs h' r' = objs h r')
              \<and> nxt h' = nxt h)
       \<and> (\<forall>setPhase \<in> {BrkPntOsc_setPhase, TriOsc_setPhase}.
            \<exists>self' h'. setPhase self x h = Inr (self', h')
              \<and> getattr self' ''_phase'' = Some (Param x)
              \<and> (\<forall>k. k \<noteq> ''_phase'' \<longrightarrow> getattr self' k = getattr self k)
              \<and> objs h' r = Some (ob\<lparr>node := PhasorObj f x\<rparr>)
              \<and> (\<forall>r'. r' \<noteq> r \<longrightarrow> objs h' r' = objs h r')
              \<and> nxt h' = nxt h)"
  by (simp add: BrkPntOsc_setFreq_eq[OF assms] TriOsc_setFreq_eq[OF assms]
      BrkPntOsc_setPhase_eq[OF assms] TriOsc_setPhase_eq[OF assms] getattr_setattr)

theorem setFreq_setPhase_frame_witness:
  "getattr (fst brk_example) ''_phasor'' = Some (Param (Obj 2))
   \<and> objs (snd brk_example) 2 =
       Some \<lparr>node = PhasorObj (Num 200) (Num 0), active = True, chnl = None\<rparr>
   \<and> (\<exists>self' h'. BrkPntOsc_setFreq (fst brk_example) (Num 440) (snd brk_example) = Inr (self', h')
         \<and> getattr self' ''_freq'' = Some (Param (Num 440))
         \<and> getattr self' ''_phase'' = Some (Param (Num 0))
         \<and> objs h' 2 = Some \<lparr>node = PhasorObj (Num 440) (Num 0), active = True, chnl = None\<rparr>
         \<and> objs h' 0 = objs (snd brk_example) 0)"
proof -
  from setFreq_setPhase_frame[OF brk_example_phasor_obj, of "Num 200" "Num 0" "Num 440"]
  obtain self' h' where "BrkPntOsc_setFreq (fst brk_example) (Num 440) (snd brk_example) = Inr (self', h')"
    and "getattr self' ''_freq'' = Some (Param (Num 440))"
    and "\<forall>k. k \<noteq> ''_freq'' \<longrightarrow> getattr self' k = getattr (fst brk_example) k"
    and "objs h' 2 = Some (\<lparr>node = PhasorObj (Num 200) (Num 0), active = True, chnl = None\<rparr>
           \<lparr>node := PhasorObj (Num 440) (Num 0)\<rparr>)"
    and "\<forall>r'. r' \<noteq> 2 \<longrightarrow> objs h' r' = objs (snd brk_example) r'"
    by force
  moreover have "getattr (fst brk_example) ''_phase'' = Some (Param (Num 0))"
    by (simp add: brk_example_def init_defs getattr_def)
  ultimately show ?thesis
    using brk_example_phasor_obj by simp
qed

section \<open>Starting and stopping\<close>

lemma activation_obj_play:
  "activation (obj_play r dur delay h) r' =
     (if r' = r \<and> activation h r \<noteq> None then Some True else activation h r')"
  by (auto simp: activation_def obj_play_def split: option.splits)

lemma activation_obj_stop:
  "activation (obj_stop r h) r' =
     (if r' = r \<and> activation h r \<noteq> None then Some False else activation h r')"
  by (auto simp: activation_def obj_stop_def split: option.splits)

lemma activation_obj_out:
  "activation (obj_out r c dur delay h) r' =
     (if r' = r \<and> activation h r \<noteq> None then Some True else activation h r')"
  by (auto simp: activation_def obj_out_def split: option.splits)

text \<open>The loop over the attributes never stops what runs, and starts every object it meets.\<close>

lemma play_attrs_keeps:
  "activation h r = Some True \<Longrightarrow> activation (play_attrs ks self dur delay h) r = Some True"
  by (induction ks arbitrary: h)
     (auto simp: activation_obj_play split: option.splits attr.splits pyval.splits)

lemma play_attrs_plays:
  "k \<in> set ks \<Longrightarrow> getattr self k = Some (Param (Obj r)) \<Longrightarrow> activation h r \<noteq> None
    \<Longrightarrow> activation (play_attrs ks self dur delay h) r = Some True"
proof (induction ks arbitrary: h)
  case Nil
  then show ?case by simp
next
  case (Cons a ks)
  show ?case
  proof (cases "a = k")
    case True
    with Cons.prems show ?thesis
      by (auto simp: activation_obj_play intro!: play_attrs_keeps)
  next
    case False
    with Cons.prems have "k \<in> set ks" by simp
    moreover have "activation (obj_play r' dur delay h) r \<noteq> None" for r'
      using Cons.prems(3) by (auto simp: activation_obj_play)
    ultimately show ?thesis
      using Cons.IH Cons.prems(2,3)
      by (auto split: option.splits attr.splits pyval.splits)
  qed
qed

lemma stop_attrs_keeps:
  "activation h r = Some False \<Longrightarrow> activation (stop_attrs ks self h) r = Some False"
  by (induction ks arbitrary: h)
     (auto simp: activation_obj_stop split: option.splits attr.splits pyval.splits)

lemma stop_attrs_stops:
  "k \<in> set ks \<Longrightarrow> getattr self k = Some (Param (Obj r)) \<Longrightarrow> activation h r \<noteq> None
    \<Longrightarrow> activation (stop_attrs ks self h) r = Some False"
proof (induction ks arbitrary: h)
  case Nil
  then show ?case by simp
next
  case (Cons a ks)
  show ?case
  proof (cases "a = k")
    case True
    with Cons.prems show ?thesis
      by (auto simp: activation_obj_stop intro!: stop_attrs_keeps)
  next
    case False
    with Cons.prems have "k \<in> set ks" by simp
    moreover have "activation (obj_stop r' h) r \<noteq> None" for r'
      using Cons.prems(3) by (auto simp: activation_obj_stop)
    ultimately show ?thesis
      using Cons.IH Cons.prems(2,3)
      by (auto split: option.splits attr.splits pyval.splits)
  qed
qed

lemma play_all_keeps:
  "activation h r = Some True \<Longrightarrow> activation (play_all rs dur delay h) r = Some True"
  by (induction rs arbitrary: h) (auto simp: activation_obj_play)

lemma stop_all_keeps:
  "activation h r = Some False \<Longrightarrow> activation (stop_all rs h) r = Some False"
  by (induction rs arbitrary: h) (auto simp: activation_obj_stop)

lemma out_all_keeps:
  "activation h r = Some True \<Longrightarrow> activation (out_all rs c inc dur delay h) r = Some True"
  by (induction rs arbitrary: h c) (auto simp: activation_obj_out)

lemma PyoObject_play_keeps:
  "activation h r = Some True \<Longrightarrow> activation (PyoObject_play self dur delay h) r = Some True"
  by (auto simp: PyoObject_play_def play_all_keeps split: option.splits attr.splits)

lemma PyoObject_stop_keeps:
  "activation h r = Some False \<Longrightarrow> activation (PyoObject_stop self h) r = Some False"
  by (auto simp: PyoObject_stop_def stop_all_keeps split: option.splits attr.splits)

lemma PyoObject_out_keeps:
  "activation h r = Some True
    \<Longrightarrow> activation (PyoObject_out self c inc dur delay h) r = Some True"
  by (auto simp: PyoObject_out_def out_all_keeps split: option.splits attr.splits)

lemma TriOsc_init_attrs:
  assumes "TriOsc_init freq phase mul add h0 = (self, h)"
    and "key \<in> {''_phasor'', ''_inv_phasor'', ''_min'', ''_output''}"
  shows "\<exists>r. getattr self key = Some (Param (Obj r)) \<and> r \<in> dom (objs h)
           \<and> key \<in> set (keys self)"
  using assms by (auto simp: tri_defs getattr_def keys_def)

text \<open>
  Claim C3. For each of the attributes \<^verbatim>\<open>_phasor\<close>, \<^verbatim>\<open>_inv_phasor\<close>, \<^verbatim>\<open>_min\<close> and \<^verbatim>\<open>_output\<close> of
  a triangle oscillator, in any store that still holds its objects: the loop of \<^verbatim>\<open>play\<close> (and
  of \<^verbatim>\<open>out\<close>) over the attributes leaves the object active, the loop of \<^verbatim>\<open>stop\<close> leaves it
  inactive; \<^verbatim>\<open>play\<close>, \<^verbatim>\<open>stop\<close> and \<^verbatim>\<open>out\<close> are the base-class operation applied to the store the
  loop returns; and after the whole call the object is active (for \<^verbatim>\<open>stop\<close>: inactive).
\<close>

theorem TriOsc_play_stop_out_cascade:
  assumes "TriOsc_init freq phase mul add h0 = (self, h)"
    and "dom (objs h) \<subseteq> dom (objs h1)"
    and "key \<in> {''_phasor'', ''_inv_phasor'', ''_min'', ''_output''}"
  shows "\<exists>r. getattr self key = Some (Param (Obj r))
      \<and> activation (play_attrs (keys self) self dur delay h1) r = Some True
      \<and> TriOsc_play self dur delay h1 =
          PyoObject_play self dur delay (play_attrs (keys self) self dur delay h1)
      \<and> activation (TriOsc_play self dur delay h1) r = Some True
      \<and> activation (stop_attrs (keys self) self h1) r = Some False
      \<and> TriOsc_stop self h1 = PyoObject_stop self (stop_attrs (keys self) self h1)
      \<and> activation (TriOsc_stop self h1) r = Some False
      \<and> TriOsc_out self c inc dur delay h1 =
          PyoObject_out self c inc dur delay (play_attrs (keys self) self dur delay h1)
      \<and> activation (TriOsc_out self c inc dur delay h1) r = Some True"
proof -
  from TriOsc_init_attrs[OF assms(1,3)] obtain r where
    r: "getattr self key = Some (Param (Obj r))" and d: "r \<in> dom (objs h)"
    and k: "key \<in> set (keys self)" by blast
  from d assms(2) have a: "activation h1 r \<noteq> None"
    by (auto simp: activation_def)
  have p: "activation (play_attrs (keys self) self dur delay h1) r = Some True"
    by (rule play_attrs_plays[OF k r a])
  have s: "activation (stop_attrs (keys self) self h1) r = Some False"
    by (rule stop_attrs_stops[OF k r a])
  show ?thesis
    using r p s
    by (auto simp: TriOsc_play_def TriOsc_stop_def TriOsc_out_def
        intro: PyoObject_play_keeps PyoObject_stop_keeps PyoObject_out_keeps)
qed

lemma tri_example_stopped:
  "objs (TriOsc_stop (fst tri_example) (snd tri_example)) =
     (objs (snd tri_example))
       (0 \<mapsto> \<lparr>node = PhasorObj (Num 200) (Num 0), active = False, chnl = None\<rparr>,
        2 \<mapsto> \<lparr>node = ArithObj Add (Obj 1) (Num 1), active = False, chnl = None\<rparr>,
        3 \<mapsto> \<lparr>node = MinObj (Obj 0) (Obj 2) (Num 4) (Num (-1)), active = False, chnl = None\<rparr>,
        4 \<mapsto> \<lparr>node = SigObj (Obj 3) (Num (1/5)) (Num 0), active = False, chnl = None\<rparr>)"
  by (simp add: tri_example_def tri_defs empty_heap_def TriOsc_stop_def keys_def getattr_def
      PyoObject_stop_def obj_stop_def eval_nat_numeral)

theorem TriOsc_play_stop_out_cascade_witness:
  "dom (objs (snd tri_example)) \<subseteq> dom (objs (TriOsc_stop (fst tri_example) (snd tri_example)))
   \<and> ''_phasor'' \<in> {''_phasor'', ''_inv_phasor'', ''_min'', ''_output''}
   \<and> getattr (fst tri_example) ''_phasor'' = Some (Param (Obj 0))
   \<and> activation (TriOsc_stop (fst tri_example) (snd tri_example)) 0 = Some False
   \<and> activation (TriOsc_play (fst tri_example) 0 0
        (TriOsc_stop (fst tri_example) (snd tri_example))) 0 = Some True"
proof -
  have d: "dom (objs (snd tri_example))
            \<subseteq> dom (objs (TriOsc_stop (fst tri_example) (snd tri_example)))"
    by (auto simp: tri_example_stopped)
  have k: "''_phasor'' \<in> {''_phasor'', ''_inv_phasor'', ''_min'', ''_output''}"
    by simp
  have g: "getattr (fst tri_example) ''_phasor'' = Some (Param (Obj 0))"
    by (simp add: tri_example_def tri_defs empty_heap_def getattr_def)
  have s: "activation (TriOsc_stop (fst tri_example) (snd tri_example)) 0 = Some False"
    by (simp add: activation_def tri_example_stopped)
  from TriOsc_play_stop_out_cascade[OF tri_example_collapse d k,
      where dur = 0 and delay = 0 and c = 0 and inc = 1]
  obtain r where "getattr (fst tri_example) ''_phasor'' = Some (Param (Obj r))"
    and "activation (TriOsc_play (fst tri_example) 0 0
        (TriOsc_stop (fst tri_example) (snd tri_example))) r = Some True"
    by blast
  with g have "activation (TriOsc_play (fst tri_example) 0 0
        (TriOsc_stop (fst tri_example) (snd tri_example))) 0 = Some True"
    by simp
  with d k g s show ?thesis by blast
qed

section \<open>A breakpoint of 0 or 1\<close>

lemmas setter_defs = BrkPntOsc_setBrkPnt_def param_def Sig_setValue_def getattr_def

text \<open>
  Claim C5. With a breakpoint of exactly 0 or exactly 1 the \<^verbatim>\<open>Sig\<close> of \<^verbatim>\<open>_breakpoint\<close> holds
  that value as given, at construction and after \<^verbatim>\<open>setBrkPnt\<close>, which returns without error.
  The store holds the division of the phasor by \<^verbatim>\<open>_breakpoint\<close> and a division by \<^verbatim>\<open>_invbrk\<close>.
  At breakpoint 0 the sample of \<^verbatim>\<open>_breakpoint\<close> is 0 and the rising signal is undefined; at
  breakpoint 1 the sample of \<^verbatim>\<open>_invbrk\<close> is 0 and the falling signal is undefined. In both
  cases the raw waveform, \<^verbatim>\<open>_osc\<close> and the output are undefined samples, not errors.
\<close>

theorem BrkPntOsc_breakpoint_unguarded:
  assumes "BrkPntOsc_init freq phase (Num b) (Num m) (Num a) h0 = (self, h)"
    and "attr_cur h env self ''_phasor'' = Some (Fin p)"
    and "b = 0 \<or> b = 1"
  shows "(\<exists>brk inv ph num t1 t4 ob1 ob4.
            getattr self ''_breakpoint'' = Some (Param brk)
          \<and> getattr self ''_invbrk'' = Some (Param inv)
          \<and> getattr self ''_phasor'' = Some (Param ph)
          \<and> Sig_value h brk = Some (Num b)
          \<and> objs h t1 = Some ob1 \<and> node ob1 = ArithObj Div ph brk
          \<and> objs h t4 = Some ob4 \<and> node ob4 = ArithObj Div num inv
          \<and> (b = 0 \<longrightarrow> cur h env brk = Some (Fin 0)
                \<and> attr_cur h env self ''_rising'' = Some Undefined)
          \<and> (b = 1 \<longrightarrow> cur h env inv = Some (Fin 0)
                \<and> attr_cur h env self ''_falling'' = Some Undefined))
       \<and> raw_cur h env self = Some Undefined
       \<and> attr_cur h env self ''_osc'' = Some Undefined
       \<and> attr_cur h env self ''_output'' = Some Undefined
       \<and> (\<forall>bp0 self2 h2. BrkPntOsc_init freq phase bp0 (Num m) (Num a) h0 = (self2, h2) \<longrightarrow>
            (\<exists>h'. BrkPntOsc_setBrkPnt self2 (Num b) h2 = Inr (self2, h')
               \<and> attr_cur h' env self2 ''_breakpoint'' = Some (Fin b)
               \<and> attr_cur h' env self2 ''_osc'' = Some Undefined
               \<and> attr_cur h' env self2 ''_output'' = Some Undefined))"
proof -
  have g1: "\<exists>brk inv ph num t1 t4 ob1 ob4.
            getattr self ''_breakpoint'' = Some (Param brk)
          \<and> getattr self ''_invbrk'' = Some (Param inv)
          \<and> getattr self ''_phasor'' = Some (Param ph)
          \<and> Sig_value h brk = Some (Num b)
          \<and> objs h t1 = Some ob1 \<and> node ob1 = ArithObj Div ph brk
          \<and> objs h t4 = Some ob4 \<and> node ob4 = ArithObj Div num inv
          \<and> (b = 0 \<longrightarrow> cur h env brk = Some (Fin 0)
                \<and> attr_cur h env self ''_rising'' = Some Undefined)
          \<and> (b = 1 \<longrightarrow> cur h env inv = Some (Fin 0)
                \<and> attr_cur h env self ''_falling'' = Some Undefined)"
    apply (rule exI[of _ "Obj (nxt h0)"])
    apply (rule exI[of _ "Obj (nxt h0 + 1)"])
    apply (rule exI[of _ "Obj (nxt h0 + 2)"])
    apply (rule exI[of _ "Obj (nxt h0 + 6)"])
    apply (rule exI[of _ "nxt h0 + 3"])
    apply (rule exI[of _ "nxt h0 + 7"])
    using assms
    apply (clarsimp simp add: init_defs attr_cur_unfold getattr_def cur_def Sig_value_def
        scale_def eval_nat_numeral)
    done
  have g2: "raw_cur h env self = Some Undefined"
    using assms
    by (auto simp add: init_defs attr_cur_unfold raw_cur_unfold Sig_value_def scale_def)
  have g3: "attr_cur h env self ''_osc'' = Some Undefined"
    using assms
    by (auto simp add: init_defs attr_cur_unfold scale_def)
  have g4: "attr_cur h env self ''_output'' = Some Undefined"
    using assms
    by (auto simp add: init_defs attr_cur_unfold scale_def)
  have g5: "\<exists>h'. BrkPntOsc_setBrkPnt self2 (Num b) h2 = Inr (self2, h')
               \<and> attr_cur h' env self2 ''_breakpoint'' = Some (Fin b)
               \<and> attr_cur h' env self2 ''_osc'' = Some Undefined
               \<and> attr_cur h' env self2 ''_output'' = Some Undefined"
    if "BrkPntOsc_init freq phase bp0 (Num m) (Num a) h0 = (self2, h2)" for bp0 self2 h2
    using that assms
    by (auto simp add: init_defs attr_cur_unfold scale_def setter_defs)
  from g1 g2 g3 g4 g5 show ?thesis by blast
qed

theorem BrkPntOsc_breakpoint_unguarded_witness:
  "attr_cur (snd (BrkPntOsc_init (Num 200) (Num 0) (Num 0) (Num 1) (Num 0) empty_heap))
      (\<lambda>r. 1/4) (fst (BrkPntOsc_init (Num 200) (Num 0) (Num 0) (Num 1) (Num 0) empty_heap))
      ''_phasor'' = Some (Fin (1/4))
   \<and> ((0::real) = 0 \<or> (0::real) = 1)
   \<and> attr_cur (snd (BrkPntOsc_init (Num 200) (Num 0) (Num 0) (Num 1) (Num 0) empty_heap))
      (\<lambda>r. 1/4) (fst (BrkPntOsc_init (Num 200) (Num 0) (Num 0) (Num 1) (Num 0) empty_heap))
      ''_output'' = Some Undefined
   \<and> (\<exists>h'. BrkPntOsc_setBrkPnt (fst brk_example) (Num 0) (snd brk_example)
              = Inr (fst brk_example, h')
         \<and> attr_cur h' (\<lambda>r. 1/4) (fst brk_example) ''_output'' = Some Undefined)
   \<and> attr_cur (snd (BrkPntOsc_init (Num 200) (Num 0) (Num 1) (Num 1) (Num 0) empty_heap))
      (\<lambda>r. 1/4) (fst (BrkPntOsc_init (Num 200) (Num 0) (Num 1) (Num 1) (Num 0) empty_heap))
      ''_falling'' = Some Undefined"
proof -
  let ?J = "BrkPntOsc_init (Num 200) (Num 0) (Num 1) (Num 1) (Num 0) empty_heap"
  have phJ: "attr_cur (snd ?J) (\<lambda>r. 1/4) (fst ?J) ''_phasor'' = Some (Fin (1/4))"
    by (simp add: init_defs empty_heap_def attr_cur_unfold)
  have j: "?J = (fst ?J, snd ?J)" by simp
  have b1: "(1::real) = 0 \<or> (1::real) = 1" by simp
  from BrkPntOsc_breakpoint_unguarded[OF j phJ b1]
  have f1: "attr_cur (snd ?J) (\<lambda>r. 1/4) (fst ?J) ''_falling'' = Some Undefined"
    by blast
  let ?I = "BrkPntOsc_init (Num 200) (Num 0) (Num 0) (Num 1) (Num 0) empty_heap"
  have ph: "attr_cur (snd ?I) (\<lambda>r. 1/4) (fst ?I) ''_phasor'' = Some (Fin (1/4))"
    by (simp add: init_defs empty_heap_def attr_cur_unfold)
  have i: "?I = (fst ?I, snd ?I)" by simp
  have b: "(0::real) = 0 \<or> (0::real) = 1" by simp
  note t = BrkPntOsc_breakpoint_unguarded[OF i ph b]
  from t have o: "attr_cur (snd ?I) (\<lambda>r. 1/4) (fst ?I) ''_output'' = Some Undefined"
    by blast
  from t brk_example_collapse
  have "\<exists>h'. BrkPntOsc_setBrkPnt (fst brk_example) (Num 0) (snd brk_example)
              = Inr (fst brk_example, h')
         \<and> attr_cur h' (\<lambda>r. 1/4) (fst brk_example) ''_output'' = Some Undefined"
    by blast
  with ph b o f1 show ?thesis by blast
qed

section \<open>The breakpoint oscillator is started and stopped by the base class\<close>

lemma objs_obj_play: "r' \<noteq> r \<Longrightarrow> objs (obj_play r dur delay h) r' = objs h r'"
  by (simp add: obj_play_def split: option.splits)

lemma objs_obj_stop: "r' \<noteq> r \<Longrightarrow> objs (obj_stop r h) r' = objs h r'"
  by (simp add: obj_stop_def split: option.splits)

lemma objs_obj_out: "r' \<noteq> r \<Longrightarrow> objs (obj_out r c dur delay h) r' = objs h r'"
  by (simp add: obj_out_def split: option.splits)

lemma BrkPntOsc_init_base:
  assumes "BrkPntOsc_init freq phase breakpoint mul add h0 = (self, h)"
  shows "\<exists>out. getattr self ''_output'' = Some (Param (Obj out))
     \<and> getattr self ''_base_objs'' = Some (BaseObjs [out])
     \<and> (\<forall>key \<in> {''_breakpoint'', ''_invbrk'', ''_phasor'', ''_rising'', ''_falling'', ''_osc''}.
          \<exists>r. getattr self key = Some (Param (Obj r)) \<and> r \<noteq> out \<and> r \<in> dom (objs h))"
  using assms by (auto simp: init_defs getattr_def)

text \<open>
  Claim C10. \<^verbatim>\<open>play\<close>, \<^verbatim>\<open>stop\<close> and \<^verbatim>\<open>out\<close> on a breakpoint oscillator are the operations of
  the base class, and these act on the output object alone: every other object of the store,
  and so the object of each of \<^verbatim>\<open>_breakpoint\<close>, \<^verbatim>\<open>_invbrk\<close>, \<^verbatim>\<open>_phasor\<close>, \<^verbatim>\<open>_rising\<close>,
  \<^verbatim>\<open>_falling\<close> and \<^verbatim>\<open>_osc\<close>, is left as it was. On a triangle oscillator \<^verbatim>\<open>stop\<close> leaves the
  objects of \<^verbatim>\<open>_phasor\<close>, \<^verbatim>\<open>_inv_phasor\<close> and \<^verbatim>\<open>_min\<close> inactive.
\<close>

theorem BrkPntOsc_no_cascade:
  assumes "BrkPntOsc_init freq phase breakpoint mul add h0 = (self, h)"
    and "TriOsc_init freq' phase' mul' add' h0' = (tself, th)"
  shows "\<exists>out. getattr self ''_output'' = Some (Param (Obj out))
     \<and> BrkPntOsc_play self dur delay h1 = PyoObject_play self dur delay h1
     \<and> BrkPntOsc_stop self h1 = PyoObject_stop self h1
     \<and> BrkPntOsc_out self c inc dur delay h1 = PyoObject_out self c inc dur delay h1
     \<and> PyoObject_play self dur delay h1 = obj_play out dur delay h1
     \<and> PyoObject_stop self h1 = obj_stop out h1
     \<and> PyoObject_out self c inc dur delay h1 = obj_out out c dur delay h1
     \<and> (\<forall>r. r \<noteq> out \<longrightarrow>
            objs (BrkPntOsc_play self dur delay h1) r = objs h1 r
          \<and> objs (BrkPntOsc_stop self h1) r = objs h1 r
          \<and> objs (BrkPntOsc_out self c inc dur delay h1) r = objs h1 r)
     \<and> (\<forall>key \<in> {''_breakpoint'', ''_invbrk'', ''_phasor'', ''_rising'', ''_falling'', ''_osc''}.
          \<exists>r. getattr self key = Some (Param (Obj r)) \<and> r \<noteq> out
             \<and> objs (BrkPntOsc_play self dur delay h1) r = objs h1 r
             \<and> objs (BrkPntOsc_stop self h1) r = objs h1 r
             \<and> objs (BrkPntOsc_out self c inc dur delay h1) r = objs h1 r)
     \<and> (\<forall>key \<in> {''_phasor'', ''_inv_phasor'', ''_min''}.
          \<exists>r. getattr tself key = Some (Param (Obj r))
             \<and> activation (TriOsc_stop tself th) r = Some False)"
proof -
  from BrkPntOsc_init_base[OF assms(1)] obtain out where
    o: "getattr self ''_output'' = Some (Param (Obj out))"
    and b: "getattr self ''_base_objs'' = Some (BaseObjs [out])"
    and k: "\<forall>key \<in> {''_breakpoint'', ''_invbrk'', ''_phasor'', ''_rising'', ''_falling'', ''_osc''}.
          \<exists>r. getattr self key = Some (Param (Obj r)) \<and> r \<noteq> out \<and> r \<in> dom (objs h)"
    by blast
  have p: "PyoObject_play self dur delay h1 = obj_play out dur delay h1"
    and s: "PyoObject_stop self h1 = obj_stop out h1"
    and u: "PyoObject_out self c inc dur delay h1 = obj_out out c dur delay h1"
    using b by (simp_all add: PyoObject_play_def PyoObject_stop_def PyoObject_out_def)
  have t: "\<exists>r. getattr tself key = Some (Param (Obj r))
             \<and> activation (TriOsc_stop tself th) r = Some False"
    if "key \<in> {''_phasor'', ''_inv_phasor'', ''_min''}" for key
  proof -
    from that have "key \<in> {''_phasor'', ''_inv_phasor'', ''_min'', ''_output''}" by auto
    from TriOsc_init_attrs[OF assms(2) this] obtain r where
      r: "getattr tself key = Some (Param (Obj r))" and d: "r \<in> dom (objs th)"
      and ks: "key \<in> set (keys tself)" by blast
    from d have "activation th r \<noteq> None" by (auto simp: activation_def)
    from stop_attrs_stops[OF ks r this] r show ?thesis
      by (auto simp: TriOsc_stop_def intro: PyoObject_stop_keeps)
  qed
  show ?thesis
    apply (rule exI[of _ out])
    using o k t
    apply (simp only: BrkPntOsc_play_def BrkPntOsc_stop_def BrkPntOsc_out_def p s u)
    apply (auto simp: objs_obj_play objs_obj_stop objs_obj_out)
    done
qed

theorem BrkPntOsc_no_cascade_witness:
  "getattr (fst brk_example) ''_output'' = Some (Param (Obj 14))
   \<and> getattr (fst brk_example) ''_phasor'' = Some (Param (Obj 2))
   \<and> activation (snd brk_example) 2 = Some True
   \<and> activation (BrkPntOsc_stop (fst brk_example) (snd brk_example)) 2 = Some True
   \<and> activation (BrkPntOsc_stop (fst brk_example) (snd brk_example)) 14 = Some False
   \<and> (\<exists>r. getattr (fst tri_example) ''_phasor'' = Some (Param (Obj r))
         \<and> activation (TriOsc_stop (fst tri_example) (snd tri_example)) r = Some False)"
proof -
  have o: "getattr (fst brk_example) ''_output'' = Some (Param (Obj 14))"
    by (simp add: brk_example_def init_defs empty_heap_def getattr_def eval_nat_numeral)
  have a: "activation (snd brk_example) 2 = Some True"
    by (simp add: activation_def brk_example_phasor_obj)
  have a14: "activation (snd brk_example) 14 \<noteq> None"
    by (simp add: activation_def brk_example_def init_defs empty_heap_def eval_nat_numeral)
  from BrkPntOsc_no_cascade[OF brk_example_collapse tri_example_collapse,
      where dur = 0 and delay = 0 and c = 0 and inc = 1 and ?h1.0 = "snd brk_example"]
  obtain out where "getattr (fst brk_example) ''_output'' = Some (Param (Obj out))"
    and s: "BrkPntOsc_stop (fst brk_example) (snd brk_example) = PyoObject_stop (fst brk_example) (snd brk_example)"
    and s': "PyoObject_stop (fst brk_example) (snd brk_example) = obj_stop out (snd brk_example)"
    and f: "\<forall>r. r \<noteq> out \<longrightarrow>
          objs (BrkPntOsc_stop (fst brk_example) (snd brk_example)) r = objs (snd brk_example) r"
    and t: "\<forall>key \<in> {''_phasor'', ''_inv_phasor'', ''_min''}.
          \<exists>r. getattr (fst tri_example) key = Some (Param (Obj r))
             \<and> activation (TriOsc_stop (fst tri_example) (snd tri_example)) r = Some False"
    by blast
  with o have out: "out = 14" by simp
  from f out have "objs (BrkPntOsc_stop (fst brk_example) (snd brk_example)) 2
      = objs (snd brk_example) 2" by simp
  with a have a2: "activation (BrkPntOsc_stop (fst brk_example) (snd brk_example)) 2 = Some True"
    by (simp add: activation_def)
  from s s' out a14
  have a3: "activation (BrkPntOsc_stop (fst brk_example) (snd brk_example)) 14 = Some False"
    by (simp add: activation_obj_stop)
  from t have "\<exists>r. getattr (fst tri_example) ''_phasor'' = Some (Param (Obj r))
         \<and> activation (TriOsc_stop (fst tri_example) (snd tri_example)) r = Some False"
    by simp
  with o brk_example_phasor_obj(1) a a2 a3 show ?thesis by blast
qed

end
